theory Spec2Isabelle
  imports Main
begin

section \<open>JSON values and the platform functions the component calls\<close>

text \<open>
  The component owns one value produced by \<open>JSON.parse\<close>. Numbers are kept abstract
  (type \<open>'n\<close>); strings are lists of code units; an object is the list of its own
  properties in the order \<open>Object.entries\<close> enumerates them. Assigning properties
  can turn an array into one that \<open>JSON.parse\<close> never produces: \<open>JSparse\<close> is an
  array with holes (\<open>None\<close>) among its elements or with named properties beside
  them.
\<close>

datatype 'n json =
    JNull
  | JBool bool
  | JNum 'n
  | JStr string
  | JArr "'n json list"
  | JObj "(string \<times> 'n json) list"
  | JSparse "'n json option list" "(string \<times> 'n json) list"

text \<open>
  Functions of the host platform that the source calls and does not define:
  \<open>JSON.parse\<close> (\<open>Inl\<close> carries the message of the SyntaxError it throws),
  \<open>JSON.stringify\<close>, the \<open>URL\<close> constructor (does it accept the text without a base?),
  the conversion of a number to its text, the truth value of a number, and the length
  that a value assigned to the \<open>length\<close> of an array converts to (\<open>None\<close> when the
  assignment throws a RangeError).
\<close>

record 'n platform =
  JSON_parse :: "string \<Rightarrow> string + 'n json"
  JSON_stringify :: "'n json \<Rightarrow> string"
  URL_ok :: "string \<Rightarrow> bool"
  Number_toString :: "'n \<Rightarrow> string"
  Number_truthy :: "'n \<Rightarrow> bool"
  Array_length :: "'n json \<Rightarrow> nat option"

datatype error =
  XPreJSONError string | TypeError | RangeError | SyntaxError string | NotFoundError

subsection \<open>Property keys\<close>

definition is_digit :: "char \<Rightarrow> bool" where
  "is_digit c = (48 \<le> (of_char c :: nat) \<and> (of_char c :: nat) \<le> 57)"

definition dec_value :: "string \<Rightarrow> nat" where
  "dec_value s = foldl (\<lambda>a c. 10 * a + ((of_char c :: nat) - 48)) 0 s"

text \<open>An array index is a canonical decimal numeral below \<open>2^32 - 1\<close>.\<close>

definition array_index :: "string \<Rightarrow> nat option" where
  "array_index s =
     (if s \<noteq> [] \<and> list_all is_digit s \<and> (s = ''0'' \<or> hd s \<noteq> CHR ''0'')
         \<and> dec_value s < 2 ^ 32 - 1
      then Some (dec_value s) else None)"

fun String_nat :: "nat \<Rightarrow> string" where
  "String_nat n =
     (if n < 10 then [char_of (48 + n)]
      else String_nat (n div 10) @ [char_of (48 + n mod 10)])"

declare String_nat.simps [simp del]

subsection \<open>Reading and writing a property: \<open>o[key]\<close> and \<open>o[key] = v\<close>\<close>


text \<open>
  A new property of an object is enumerated after the existing ones, except that array
  indices come first, in ascending order. Assigning \<open>__proto__\<close> where it is no own
  property runs the setter of \<open>Object.prototype\<close>, which creates no property.
\<close>

fun insert_index :: "nat \<Rightarrow> string \<Rightarrow> 'v \<Rightarrow> (string \<times> 'v) list \<Rightarrow> (string \<times> 'v) list" where
  "insert_index i k v [] = [(k, v)]"
| "insert_index i k v ((k', v') # kvs) =
     (case array_index k' of
        Some j \<Rightarrow> if j < i then (k', v') # insert_index i k v kvs
                  else (k, v) # (k', v') # kvs
      | None \<Rightarrow> (k, v) # (k', v') # kvs)"

definition obj_set :: "(string \<times> 'v) list \<Rightarrow> string \<Rightarrow> 'v \<Rightarrow> (string \<times> 'v) list" where
  "obj_set kvs k v =
     (if k \<in> fst ` set kvs then map (\<lambda>(k', v'). if k' = k then (k', v) else (k', v')) kvs
      else if k = ''__proto__'' then kvs
      else case array_index k of
             Some i \<Rightarrow> insert_index i k v kvs
           | None \<Rightarrow> kvs @ [(k, v)])"

text \<open>
  An array is written as \<open>JArr\<close> whenever it has no hole and no named property.
\<close>

definition mk_array :: "'n json option list \<Rightarrow> (string \<times> 'n json) list \<Rightarrow> 'n json" where
  "mk_array es ps =
     (case (those es, ps) of
        (Some xs, []) \<Rightarrow> JArr xs
      | _ \<Rightarrow> JSparse es ps)"

text \<open>
  On an array, an index stores the element, and an index at or beyond the length
  first extends the array with holes. The key \<open>length\<close> cuts or extends the array, or
  throws a RangeError when the value is no length. Any other key is a named property,
  which \<open>JSON.stringify\<close> does not print.
\<close>

definition arr_set ::
  "'n platform \<Rightarrow> 'n json option list \<Rightarrow> (string \<times> 'n json) list \<Rightarrow> string \<Rightarrow> 'n json
     \<Rightarrow> error + 'n json" where
  "arr_set P es ps k v =
     (case array_index k of
        Some i \<Rightarrow> Inr (mk_array ((es @ replicate (Suc i - length es) None)[i := Some v]) ps)
      | None \<Rightarrow>
          if k = ''length''
          then (case Array_length P v of
                  None \<Rightarrow> Inl RangeError
                | Some n \<Rightarrow> Inr (mk_array (take n es @ replicate (n - length es) None) ps))
          else Inr (mk_array es (obj_set ps k v)))"

text \<open>
  Class bodies are strict code, so assigning a property of a number, string or boolean
  throws a TypeError, as it does on \<open>null\<close>.
\<close>

fun set_prop :: "'n platform \<Rightarrow> 'n json \<Rightarrow> string \<Rightarrow> 'n json \<Rightarrow> error + 'n json" where
  "set_prop P (JObj kvs) k v = Inr (JObj (obj_set kvs k v))"
| "set_prop P (JArr xs) k v = arr_set P (map Some xs) [] k v"
| "set_prop P (JSparse es ps) k v = arr_set P es ps k v"
| "set_prop P _ k v = Inl TypeError"

text \<open>
  The value an object takes when the object it holds at \<open>k\<close> has changed to \<open>v\<close>.
\<close>

fun replace_prop :: "'n json \<Rightarrow> string \<Rightarrow> 'n json \<Rightarrow> 'n json" where
  "replace_prop (JObj kvs) k v =
     JObj (map (\<lambda>(k', v'). if k' = k then (k', v) else (k', v')) kvs)"
| "replace_prop (JArr xs) k v =
     (case array_index k of Some i \<Rightarrow> JArr (xs[i := v]) | None \<Rightarrow> JArr xs)"
| "replace_prop (JSparse es ps) k v =
     (case array_index k of
        Some i \<Rightarrow> if i < length es \<and> es ! i \<noteq> None then JSparse (es[i := Some v]) ps
                  else JSparse es ps
      | None \<Rightarrow> JSparse es (map (\<lambda>(k', v'). if k' = k then (k', v) else (k', v')) ps))"
| "replace_prop x k v = x"


section \<open>The rendered tree\<close>

text \<open>
  What \<open>render\<close> builds in the shadow root, element by element. The style element and
  the SVG arrow carry no behaviour and are left out.
\<close>

datatype type_tag = TString | TNumber | TBoolean | TNull | TUndefined

datatype content =
    Link string string string
  | Truncated string string
  | Plain string

record prim_el =
  p_type :: type_tag
  p_key :: string
  p_content :: content
  p_click :: bool

datatype num_attr = ANaN | AInt int

record nested_el =
  n_text :: string
  n_expand :: num_attr
  n_truncate :: num_attr
  n_key :: string
  n_editable :: string
  n_array_size :: string
  n_comma :: bool

datatype row_content = RowEmptyArray | RowPrim prim_el

record row_el =
  r_key :: "string option"
  r_content :: row_content
  r_draggable :: bool

datatype child =
    KeyButton string bool
  | Count nat
  | Ellipsis
  | Row row_el
  | Nested nested_el

record container =
  c_array :: bool
  c_row :: bool
  c_empty :: bool
  c_children :: "child list"

datatype view = VPrim prim_el | VContainer container

section \<open>The element\<close>

text \<open>
  The fields and attributes of one \<open>x-pre-json\<close> element. A numeric attribute is kept
  as what \<open>Number.parseInt\<close> reads from its text (\<open>ANaN\<close> or an integer), so the text
  \<open>String(n)\<close> of an integer is \<open>AInt n\<close>. \<open>shadow_modified\<close> is the key
  attribute and text of the first element of the shadow tree that carries a
  \<open>modified\<close> attribute; \<open>events\<close> counts the \<open>input\<close> events dispatched on the
  element. \<open>shared\<close> records that the value of the hosting element holds, at the key
  of this element, the very object that is the \<open>input\<close> of this element (it does
  once the element has passed its \<open>input\<close> to \<open>handleChildUpdate\<close> of the host): a
  property assigned on that object then shows in the value of the host as well.
\<close>

record 'n xnode =
  input :: "'n json option"
  isExpanded :: bool
  arrSize :: bool
  editable :: bool
  textContent :: string
  attr_key :: "string option"
  attr_expand :: "num_attr option"
  attr_truncate :: "num_attr option"
  attr_editable :: "string option"
  attr_array_size :: "string option"
  attr_modified :: "string option"
  hasShadowRoot :: bool
  shadow :: "view option"
  shadow_modified :: "(string \<times> string) option"
  events :: nat
  shared :: bool

definition new_element :: "'n xnode" where
  "new_element =
     \<lparr>input = None, isExpanded = True, arrSize = False, editable = False,
      textContent = [], attr_key = None, attr_expand = None, attr_truncate = None,
      attr_editable = None, attr_array_size = None, attr_modified = None,
      hasShadowRoot = True, shadow = None, shadow_modified = None, events = 0,
      shared = False\<rparr>"

definition expandAttributeValue :: "'n xnode \<Rightarrow> int" where
  "expandAttributeValue this =
     (case attr_expand this of
        None \<Rightarrow> 1
      | Some ANaN \<Rightarrow> 0
      | Some (AInt n) \<Rightarrow> if n < 0 then 0 else n)"

definition truncateStringAttributeValue :: "'n xnode \<Rightarrow> int" where
  "truncateStringAttributeValue this =
     (case attr_truncate this of
        None \<Rightarrow> 500
      | Some ANaN \<Rightarrow> 0
      | Some (AInt n) \<Rightarrow> if n < 0 then 0 else n)"

subsection \<open>Rendering a primitive\<close>

fun isPrimitiveValue :: "'n json option \<Rightarrow> bool" where
  "isPrimitiveValue (Some (JArr xs)) = False"
| "isPrimitiveValue (Some (JObj kvs)) = False"
| "isPrimitiveValue (Some (JSparse es ps)) = False"
| "isPrimitiveValue _ = True"

text \<open>The text a value is converted to where a string is expected (\<open>String(v)\<close>).\<close>

fun join :: "string \<Rightarrow> string list \<Rightarrow> string" where
  "join sep [] = []"
| "join sep [x] = x"
| "join sep (x # y # ys) = x @ sep @ join sep (y # ys)"

fun js_String :: "'n platform \<Rightarrow> 'n json \<Rightarrow> string" where
  "js_String P JNull = ''null''"
| "js_String P (JBool b) = (if b then ''true'' else ''false'')"
| "js_String P (JNum n) = Number_toString P n"
| "js_String P (JStr s) = s"
| "js_String P (JArr xs) = join '','' (map (\<lambda>x. if x = JNull then [] else js_String P x) xs)"
| "js_String P (JObj kvs) = ''[object Object]''"
| "js_String P (JSparse es ps) =
     join '','' (map (\<lambda>e. case e of
                          None \<Rightarrow> []
                        | Some x \<Rightarrow> if x = JNull then [] else js_String P x) es)"

definition input_String :: "'n platform \<Rightarrow> 'n json option \<Rightarrow> string" where
  "input_String P inp = (case inp of None \<Rightarrow> ''undefined'' | Some v \<Rightarrow> js_String P v)"

text \<open>\<open>isValidStringURL\<close> tests \<open>this.input\<close>, the value of the whole element.\<close>

definition isValidStringURL :: "'n platform \<Rightarrow> 'n xnode \<Rightarrow> bool" where
  "isValidStringURL P this = URL_ok P (input_String P (input this))"

fun typeof_tag :: "'n json option \<Rightarrow> type_tag" where
  "typeof_tag None = TUndefined"
| "typeof_tag (Some (JBool b)) = TBoolean"
| "typeof_tag (Some (JNum n)) = TNumber"
| "typeof_tag (Some (JStr s)) = TString"
| "typeof_tag (Some _) = TNull"

definition createTruncatedStringElement :: "'n xnode \<Rightarrow> string \<Rightarrow> content" where
  "createTruncatedStringElement this inp =
     Truncated (take (nat (truncateStringAttributeValue this)) inp) inp"

text \<open>
  \<open>JSON.stringify(undefined)\<close> is \<open>undefined\<close>, and assigning it to \<open>textContent\<close>
  leaves the element empty.
\<close>

definition createPrimitiveValueElement ::
  "'n platform \<Rightarrow> 'n xnode \<Rightarrow> 'n json option \<Rightarrow> string option \<Rightarrow> prim_el" where
  "createPrimitiveValueElement P this inp key =
     \<lparr>p_type = typeof_tag inp,
      p_key = (case key of None \<Rightarrow> [] | Some k \<Rightarrow> k),
      p_content =
        (case inp of
           Some (JStr s) \<Rightarrow>
             if isValidStringURL P this
             then Link (input_String P (input this)) ''_blank'' s
             else if int (length s) > truncateStringAttributeValue this
             then createTruncatedStringElement this s
             else Plain s
         | Some v \<Rightarrow> Plain (JSON_stringify P v)
         | None \<Rightarrow> Plain []),
      p_click = editable this\<rparr>"

subsection \<open>Rendering an object or an array\<close>

fun entries :: "'n json \<Rightarrow> (string \<times> 'n json) list" where
  "entries (JObj kvs) = kvs"
| "entries (JArr xs) = zip (map String_nat [0..<length xs]) xs"
| "entries (JSparse es ps) =
     List.map_filter (\<lambda>(i, e). map_option (\<lambda>x. (String_nat i, x)) e)
       (zip [0..<length es] es) @ ps"
| "entries _ = []"

fun isArray :: "'n json \<Rightarrow> bool" where
  "isArray (JArr xs) = True"
| "isArray (JSparse es ps) = True"
| "isArray _ = False"

text \<open>The \<open>length\<close> of an array.\<close>

fun array_length :: "'n json \<Rightarrow> nat option" where
  "array_length (JArr xs) = Some (length xs)"
| "array_length (JSparse es ps) = Some (length es)"
| "array_length _ = None"

text \<open>A string is truthy when it is not empty; a missing attribute reads as \<open>null\<close>.\<close>

fun truthy_key :: "string option \<Rightarrow> bool" where
  "truthy_key None = False"
| "truthy_key (Some k) = (k \<noteq> [])"

definition createEntry ::
  "'n platform \<Rightarrow> 'n xnode \<Rightarrow> 'n json \<Rightarrow> nat \<Rightarrow> string \<Rightarrow> 'n json \<Rightarrow> child" where
  "createEntry P this object index key val =
       (if isPrimitiveValue (Some val) \<or> array_length val = Some 0
        then Row \<lparr>r_key = (if isArray object then None else Some key),
                  r_content = (if isArray val then RowEmptyArray
                               else RowPrim (createPrimitiveValueElement P this (Some val) (Some key))),
                  r_draggable = (\<not> isArray val \<and> isArray object \<and> editable this)\<rparr>
        else Nested \<lparr>n_text = JSON_stringify P val,
                     n_expand = AInt (expandAttributeValue this - 1),
                     n_truncate = AInt (truncateStringAttributeValue this),
                     n_key = key,
                     n_editable = (if editable this then [] else ''false''),
                     n_array_size = (if arrSize this then [] else ''false''),
                     n_comma = (int index < int (length (entries object)) - 1)\<rparr>)"

definition createObjectOrArray :: "'n platform \<Rightarrow> 'n xnode \<Rightarrow> 'n json \<Rightarrow> container" where
  "createObjectOrArray P this object =
     (let header =
            (case attr_key this of
               None \<Rightarrow> []
             | Some objectKeyName \<Rightarrow>
                 if objectKeyName = [] then []
                 else KeyButton objectKeyName (isExpanded this)
                      # (case array_length object of
                           None \<Rightarrow> []
                         | Some n \<Rightarrow> if arrSize this then [Count n] else []))
      in \<lparr>c_array = isArray object,
          c_row = truthy_key (attr_key this),
          c_empty = (array_length object = Some 0),
          c_children =
            (if \<not> isExpanded this then header @ [Ellipsis]
             else header @ map (\<lambda>(index, key, val). createEntry P this object index key val)
                               (zip [0..<length (entries object)] (entries object)))\<rparr>)"

definition createChild :: "'n platform \<Rightarrow> 'n xnode \<Rightarrow> 'n json option \<Rightarrow> view" where
  "createChild P this inp =
     (case inp of
        Some (JArr xs) \<Rightarrow> VContainer (createObjectOrArray P this (JArr xs))
      | Some (JObj kvs) \<Rightarrow> VContainer (createObjectOrArray P this (JObj kvs))
      | Some (JSparse es ps) \<Rightarrow> VContainer (createObjectOrArray P this (JSparse es ps))
      | _ \<Rightarrow> VPrim (createPrimitiveValueElement P this inp None))"

subsection \<open>\<open>render\<close>, the lifecycle callbacks and \<open>toggle\<close>\<close>

text \<open>
  A method returns the element as it leaves it and the exception it throws, if any.
\<close>

definition render :: "'n platform \<Rightarrow> 'n xnode \<Rightarrow> 'n xnode \<times> error option" where
  "render P this =
     (if \<not> hasShadowRoot this
      then (this, Some (XPreJSONError ''Shadow root not available''))
      else (this\<lparr>shadow := Some (createChild P this (input this))\<rparr>, None))"

datatype attr_name = Expand | Key | TruncateString | Modified | Editable | ArraySize

text \<open>Truthiness of a value (\<open>if (key && value)\<close>).\<close>

fun truthy :: "'n platform \<Rightarrow> 'n json \<Rightarrow> bool" where
  "truthy P JNull = False"
| "truthy P (JBool b) = b"
| "truthy P (JNum n) = Number_truthy P n"
| "truthy P (JStr s) = (s \<noteq> [])"
| "truthy P _ = True"

text \<open>
  \<open>this.input[key] = value; this.textContent = JSON.stringify(this.input)\<close>. On
  \<open>undefined\<close> the assignment throws a TypeError.
\<close>

definition assign_input ::
  "'n platform \<Rightarrow> string \<Rightarrow> 'n json \<Rightarrow> 'n xnode \<Rightarrow> 'n xnode \<times> error option" where
  "assign_input P key v this =
     (case input this of
        None \<Rightarrow> (this, Some TypeError)
      | Some inp \<Rightarrow>
          (case set_prop P inp key v of
             Inl e \<Rightarrow> (this, Some e)
           | Inr inp' \<Rightarrow>
               (this\<lparr>input := Some inp', textContent := JSON_stringify P inp'\<rparr>, None)))"

text \<open>
  The \<open>modified\<close> case. The marked element of the shadow tree is always a nested
  \<open>x-pre-json\<close>. Removing the attribute of the element itself runs the callback once
  more, which repeats the same assignment.
\<close>

definition modified_case :: "'n platform \<Rightarrow> 'n xnode \<Rightarrow> 'n xnode \<times> error option" where
  "modified_case P this =
     (if \<not> hasShadowRoot this then (this, Some TypeError) else
      case shadow_modified this of
        None \<Rightarrow> (this, None)
      | Some (key, txt) \<Rightarrow>
          if key = [] then (this, None)
          else (case JSON_parse P txt of
                  Inl msg \<Rightarrow> (this, Some (SyntaxError msg))
                | Inr v \<Rightarrow>
                    if truthy P v
                    then assign_input P key v (this\<lparr>attr_modified := None\<rparr>)
                    else (this, None)))"

text \<open>
  The callback runs after the attribute has changed, so the new value is read from the
  element.
\<close>

definition attributeChangedCallback ::
  "'n platform \<Rightarrow> attr_name \<Rightarrow> 'n xnode \<Rightarrow> 'n xnode \<times> error option" where
  "attributeChangedCallback P name this =
     (case name of
        Editable \<Rightarrow> render P (this\<lparr>editable := (attr_editable this \<noteq> None)\<rparr>)
      | ArraySize \<Rightarrow> render P (this\<lparr>arrSize := (attr_array_size this \<noteq> None)\<rparr>)
      | TruncateString \<Rightarrow> render P this
      | Expand \<Rightarrow>
          render P (this\<lparr>isExpanded :=
            (case attr_expand this of
               None \<Rightarrow> False
             | Some ANaN \<Rightarrow> False
             | Some (AInt n) \<Rightarrow> n > 0)\<rparr>)
      | Modified \<Rightarrow> modified_case P this
      | Key \<Rightarrow> (this, None))"

definition connectedCallback :: "'n platform \<Rightarrow> 'n xnode \<Rightarrow> 'n xnode \<times> error option" where
  "connectedCallback P this =
     (case JSON_parse P (textContent this) of
        Inl msg \<Rightarrow> (this, Some (XPreJSONError (''Error parsing JSON: '' @ msg)))
      | Inr v \<Rightarrow> render P (this\<lparr>input := Some v, shared := False,
                                 editable := (attr_editable this \<noteq> None)\<rparr>))"

text \<open>
  \<open>setAttribute\<close> changes the attribute and runs the callback at once. An exception
  thrown inside the callback is reported to the page and does not reach the caller.
\<close>

definition setAttribute_expand :: "'n platform \<Rightarrow> num_attr \<Rightarrow> 'n xnode \<Rightarrow> 'n xnode" where
  "setAttribute_expand P v this =
     fst (attributeChangedCallback P Expand (this\<lparr>attr_expand := Some v\<rparr>))"

definition setAttribute_truncate :: "'n platform \<Rightarrow> num_attr \<Rightarrow> 'n xnode \<Rightarrow> 'n xnode" where
  "setAttribute_truncate P v this =
     fst (attributeChangedCallback P TruncateString (this\<lparr>attr_truncate := Some v\<rparr>))"

definition setAttribute_key :: "'n platform \<Rightarrow> string \<Rightarrow> 'n xnode \<Rightarrow> 'n xnode" where
  "setAttribute_key P v this =
     fst (attributeChangedCallback P Key (this\<lparr>attr_key := Some v\<rparr>))"

definition setAttribute_editable :: "'n platform \<Rightarrow> string \<Rightarrow> 'n xnode \<Rightarrow> 'n xnode" where
  "setAttribute_editable P v this =
     fst (attributeChangedCallback P Editable (this\<lparr>attr_editable := Some v\<rparr>))"

definition setAttribute_array_size :: "'n platform \<Rightarrow> string \<Rightarrow> 'n xnode \<Rightarrow> 'n xnode" where
  "setAttribute_array_size P v this =
     fst (attributeChangedCallback P ArraySize (this\<lparr>attr_array_size := Some v\<rparr>))"

definition setAttribute_modified :: "'n platform \<Rightarrow> string \<Rightarrow> 'n xnode \<Rightarrow> 'n xnode" where
  "setAttribute_modified P v this =
     fst (attributeChangedCallback P Modified (this\<lparr>attr_modified := Some v\<rparr>))"

definition toggle :: "'n platform \<Rightarrow> 'n xnode \<Rightarrow> 'n xnode \<times> error option" where
  "toggle P this =
     (let flipped = this\<lparr>isExpanded := \<not> isExpanded this\<rparr>;
          v = (if isExpanded flipped then AInt (expandAttributeValue flipped + 1) else AInt 0)
      in render P (setAttribute_expand P v flipped))"

text \<open>
  A nested element as \<open>createObjectOrArray\<close> makes it: created, given its text and its
  attributes in the order of the source, then connected with its container.
\<close>

definition mount_nested :: "'n platform \<Rightarrow> nested_el \<Rightarrow> 'n xnode \<times> error option" where
  "mount_nested P el =
     connectedCallback P
       (setAttribute_array_size P (n_array_size el)
         (setAttribute_editable P (n_editable el)
           (setAttribute_key P (n_key el)
             (setAttribute_truncate P (n_truncate el)
               (setAttribute_expand P (n_expand el)
                 (new_element\<lparr>textContent := n_text el\<rparr>))))))"

section \<open>The change propagation chain\<close>

text \<open>
  \<open>this.input = this.input ?? {}\<close>: a fresh object, which nothing else holds, takes
  the place of \<open>undefined\<close> and of \<open>null\<close>.
\<close>

definition own_input :: "'n xnode \<Rightarrow> 'n xnode" where
  "own_input this =
     (case input this of
        None \<Rightarrow> this\<lparr>input := Some (JObj []), shared := False\<rparr>
      | Some JNull \<Rightarrow> this\<lparr>input := Some (JObj []), shared := False\<rparr>
      | Some v \<Rightarrow> this)"

text \<open>
  An assignment changes the \<open>input\<close> object of an element in place. Where the host
  holds that very object, the value of the host changes with it, and so on upwards;
  the text of the hosts does not.
\<close>

definition touch1 :: "'n xnode \<Rightarrow> 'n xnode \<Rightarrow> 'n xnode" where
  "touch1 child host =
     (if shared child
      then (case (attr_key child, input child, input host) of
              (Some k, Some c, Some h) \<Rightarrow> host\<lparr>input := Some (replace_prop h k c)\<rparr>
            | _ \<Rightarrow> host)
      else host)"

fun alias_touch :: "'n xnode \<Rightarrow> 'n xnode list \<Rightarrow> 'n xnode list" where
  "alias_touch child [] = []"
| "alias_touch child (host # rest) =
     (if shared child then touch1 child host # alias_touch (touch1 child host) rest
      else host # rest)"

definition dispatchEvent :: "'n xnode \<Rightarrow> 'n xnode" where
  "dispatchEvent this = this\<lparr>events := events this + 1\<rparr>"

text \<open>
  \<open>handleChildUpdate\<close> of \<open>xprejson.js\<close>. The element is \<open>this\<close>; \<open>ancestors\<close> are
  the \<open>x-pre-json\<close> elements that host it, the nearest first (\<open>getRootNode().host\<close>
  of each is the next). The result is the chain, \<open>this\<close> first, and the exception that
  stopped the call, if any. When the host has stored the \<open>input\<close> of \<open>this\<close>, the two
  share the object; the hosts above are reached through the call on the host.
\<close>

definition stores :: "'n platform \<Rightarrow> string \<Rightarrow> 'n json \<Rightarrow> 'n xnode \<Rightarrow> bool" where
  "stores P key v this = (snd (assign_input P key v (own_input this)) = None)"

fun handleChildUpdate ::
  "'n platform \<Rightarrow> string \<Rightarrow> 'n json \<Rightarrow> 'n xnode \<Rightarrow> 'n xnode list
     \<Rightarrow> 'n xnode list \<times> error option" where
  "handleChildUpdate P key v this [] =
     (case assign_input P key v (own_input this) of
        (this', Some e) \<Rightarrow> ([this'], Some e)
      | (this', None) \<Rightarrow> ([dispatchEvent this'], None))"
| "handleChildUpdate P key v this (parentHost # rest) =
     (case assign_input P key v (own_input this) of
        (this', Some e) \<Rightarrow> (this' # parentHost # rest, Some e)
      | (this', None) \<Rightarrow>
          (case (attr_key this', input this') of
             (Some myKey, Some inp') \<Rightarrow>
               if myKey \<noteq> []
               then (case handleChildUpdate P myKey inp' (touch1 this' parentHost) rest of
                       (chain, r) \<Rightarrow>
                         ((if stores P myKey inp' (touch1 this' parentHost)
                           then this'\<lparr>shared := True\<rparr> else this') # chain, r))
               else (dispatchEvent this' # alias_touch this' (parentHost # rest), None)
           | _ \<Rightarrow> (dispatchEvent this' # alias_touch this' (parentHost # rest), None)))"

text \<open>
  The same method in the second copy of the component (\<open>part_000\<close>): it has no
  \<open>else\<close> branch, so no event is dispatched.
\<close>

fun handleChildUpdate_part000 ::
  "'n platform \<Rightarrow> string \<Rightarrow> 'n json \<Rightarrow> 'n xnode \<Rightarrow> 'n xnode list
     \<Rightarrow> 'n xnode list \<times> error option" where
  "handleChildUpdate_part000 P key v this [] =
     (case assign_input P key v (own_input this) of
        (this', r) \<Rightarrow> ([this'], r))"
| "handleChildUpdate_part000 P key v this (parentHost # rest) =
     (case assign_input P key v (own_input this) of
        (this', Some e) \<Rightarrow> (this' # parentHost # rest, Some e)
      | (this', None) \<Rightarrow>
          (case (attr_key this', input this') of
             (Some myKey, Some inp') \<Rightarrow>
               if myKey \<noteq> []
               then (case handleChildUpdate_part000 P myKey inp' (touch1 this' parentHost) rest of
                       (chain, r) \<Rightarrow>
                         ((if stores P myKey inp' (touch1 this' parentHost)
                           then this'\<lparr>shared := True\<rparr> else this') # chain, r))
               else (this' # alias_touch this' (parentHost # rest), None)
           | _ \<Rightarrow> (this' # alias_touch this' (parentHost # rest), None)))"

section \<open>The edit session of a primitive\<close>

text \<open>
  The click handler of \<open>createPrimitiveValueElement\<close> closes over the type tag of the
  rendered value, reads the key attribute and the displayed text of the element, and
  installs the listeners; the handler exists only on an element rendered by an
  editable host. \<open>e_text\<close> is the text of the element, \<open>e_session\<close> the listeners
  while they are installed.
\<close>

fun content_text :: "content \<Rightarrow> string" where
  "content_text (Plain t) = t"
| "content_text (Link href target t) = ''\"'' @ t @ ''\"''"
| "content_text (Truncated prefix full) = prefix"

record session =
  s_type :: type_tag
  s_key :: string
  s_originalText :: string

record 'n editing =
  e_text :: string
  e_contenteditable :: bool
  e_session :: "session option"
  e_host :: "'n xnode"
  e_ancestors :: "'n xnode list"

definition click :: "prim_el \<Rightarrow> 'n xnode \<Rightarrow> 'n xnode list \<Rightarrow> 'n editing" where
  "click el host ancestors =
     (if p_click el
      then \<lparr>e_text = content_text (p_content el),
            e_contenteditable = True,
            e_session = Some \<lparr>s_type = p_type el, s_key = p_key el,
                              s_originalText = content_text (p_content el)\<rparr>,
            e_host = host,
            e_ancestors = ancestors\<rparr>
      else \<lparr>e_text = content_text (p_content el),
            e_contenteditable = False,
            e_session = None,
            e_host = host,
            e_ancestors = ancestors\<rparr>)"

text \<open>The value the handlers derive from a text.\<close>

definition derive_value :: "'n platform \<Rightarrow> type_tag \<Rightarrow> string \<Rightarrow> 'n json" where
  "derive_value P ty newText =
     (if ty = TString then JStr newText
      else case JSON_parse P newText of
             Inr v \<Rightarrow> v
           | Inl msg \<Rightarrow> JStr newText)"

text \<open>
  Reporting the value to the host: through \<open>handleChildUpdate\<close> when the key is not
  empty, otherwise directly on the host. The direct branch calls no other element;
  its assignments change the \<open>input\<close> object of the host in place.
\<close>

definition report ::
  "'n platform \<Rightarrow> string \<Rightarrow> 'n json \<Rightarrow> 'n xnode \<Rightarrow> 'n xnode list
     \<Rightarrow> 'n xnode list \<times> error option" where
  "report P key parsed host ancestors =
     (if key \<noteq> [] then handleChildUpdate P key parsed host ancestors
      else case assign_input P key parsed (own_input host) of
             (host', Some e) \<Rightarrow> (host' # ancestors, Some e)
           | (host', None) \<Rightarrow>
               (setAttribute_modified P key host'
                  # alias_touch (setAttribute_modified P key host') ancestors, None))"

definition onInput ::
  "'n platform \<Rightarrow> session \<Rightarrow> string \<Rightarrow> 'n xnode \<Rightarrow> 'n xnode list
     \<Rightarrow> 'n xnode list \<times> error option" where
  "onInput P ses newText host ancestors =
     report P (s_key ses) (derive_value P (s_type ses) newText) host ancestors"

datatype edit_event = InputText string | KeyDown string | WindowClickOutside

definition set_chain :: "'n xnode list \<Rightarrow> 'n editing \<Rightarrow> 'n editing" where
  "set_chain chain st =
     (case chain of
        [] \<Rightarrow> st
      | host # ancestors \<Rightarrow> st\<lparr>e_host := host, e_ancestors := ancestors\<rparr>)"

definition end_session :: "'n editing \<Rightarrow> 'n editing" where
  "end_session st = st\<lparr>e_contenteditable := False, e_session := None\<rparr>"

text \<open>
  One event on the element. Typing changes the text and then fires \<open>input\<close>; with no
  listener installed nothing else happens. The \<open>Escape\<close> branch ends the session only
  when reporting the reverted value did not throw.
\<close>

definition edit_step :: "'n platform \<Rightarrow> edit_event \<Rightarrow> 'n editing \<Rightarrow> 'n editing \<times> error option" where
  "edit_step P ev st =
     (case e_session st of
        None \<Rightarrow>
          (case ev of
             InputText t \<Rightarrow> (if e_contenteditable st then st\<lparr>e_text := t\<rparr> else st, None)
           | _ \<Rightarrow> (st, None))
      | Some ses \<Rightarrow>
          (case ev of
             InputText t \<Rightarrow>
               (case onInput P ses t (e_host st) (e_ancestors st) of
                  (chain, r) \<Rightarrow> (set_chain chain (st\<lparr>e_text := t\<rparr>), r))
           | KeyDown k \<Rightarrow>
               if k = ''Enter'' then (end_session st, None)
               else if k = ''Escape''
               then (case report P (s_key ses)
                            (derive_value P (s_type ses) (s_originalText ses))
                            (e_host st) (e_ancestors st) of
                       (chain, None) \<Rightarrow>
                         (end_session (set_chain chain (st\<lparr>e_text := s_originalText ses\<rparr>)), None)
                     | (chain, Some e) \<Rightarrow>
                         (set_chain chain (st\<lparr>e_text := s_originalText ses\<rparr>), Some e))
               else (st, None)
           | WindowClickOutside \<Rightarrow> (end_session st, None)))"

fun edit_steps :: "'n platform \<Rightarrow> edit_event list \<Rightarrow> 'n editing \<Rightarrow> 'n editing" where
  "edit_steps P [] st = st"
| "edit_steps P (ev # evs) st = edit_steps P evs (fst (edit_step P ev st))"

section \<open>Reordering the rows of an array\<close>

text \<open>
  The children of the container as the drag handlers see them: each child has an
  identity, may carry the class \<open>row\<close>, has a text content and, if it contains an
  \<open>x-pre-json\<close> element, the text of the first one.
\<close>

record dom_child =
  d_id :: nat
  d_row :: bool
  d_text :: string
  d_nested :: "string option"

record 'a drag_container =
  selected :: "'a option"
  kids :: "'a list"

definition dragStart :: "'a \<Rightarrow> 'a drag_container \<Rightarrow> 'a drag_container" where
  "dragStart row c = c\<lparr>selected := Some row\<rparr>"

text \<open>
  \<open>isBefore el1 el2\<close> walks the previous siblings of \<open>el1\<close> looking for \<open>el2\<close>. Both
  are children of the container, or the parents differ.
\<close>

fun walk_previous :: "'a list \<Rightarrow> 'a \<Rightarrow> bool" where
  "walk_previous [] el2 = False"
| "walk_previous (cur # prevs) el2 = (if cur = el2 then True else walk_previous prevs el2)"

definition isBefore :: "'a list \<Rightarrow> 'a \<Rightarrow> 'a \<Rightarrow> bool" where
  "isBefore siblings el1 el2 =
     (if el1 \<notin> set siblings \<or> el2 \<notin> set siblings then False
      else walk_previous (rev (takeWhile (\<lambda>x. x \<noteq> el1) siblings)) el2)"

definition nextSibling :: "'a list \<Rightarrow> 'a \<Rightarrow> 'a option" where
  "nextSibling siblings el =
     (case dropWhile (\<lambda>x. x \<noteq> el) siblings of
        x # y # others \<Rightarrow> Some y
      | _ \<Rightarrow> None)"

text \<open>
  \<open>parent.insertBefore(node, ref)\<close>: the node leaves its place and is put before
  \<open>ref\<close>, at the end when \<open>ref\<close> is \<open>null\<close>; when \<open>ref\<close> is the node itself it stays
  where it is, and a \<open>ref\<close> that is no child of the parent is a NotFoundError.
\<close>

definition insertBefore :: "'a list \<Rightarrow> 'a \<Rightarrow> 'a option \<Rightarrow> error + 'a list" where
  "insertBefore siblings node ref =
     (case ref of
        None \<Rightarrow> Inr (remove1 node siblings @ [node])
      | Some r \<Rightarrow>
          if r \<notin> set siblings then Inl NotFoundError
          else if r = node then Inr siblings
          else Inr (takeWhile (\<lambda>x. x \<noteq> r) (remove1 node siblings)
                    @ node # dropWhile (\<lambda>x. x \<noteq> r) (remove1 node siblings)))"

definition dragOver :: "'a \<Rightarrow> 'a drag_container \<Rightarrow> 'a drag_container \<times> error option" where
  "dragOver targetRow c =
     (case selected c of
        None \<Rightarrow> (c, None)
      | Some dragged \<Rightarrow>
          if dragged = targetRow then (c, None)
          else if targetRow \<notin> set (kids c) then (c, None)
          else (case (if isBefore (kids c) dragged targetRow
                      then insertBefore (kids c) dragged (Some targetRow)
                      else insertBefore (kids c) dragged (nextSibling (kids c) targetRow)) of
                  Inl e \<Rightarrow> (c, Some e)
                | Inr ks \<Rightarrow> (c\<lparr>kids := ks\<rparr>, None)))"

definition is_space :: "char \<Rightarrow> bool" where
  "is_space c = ((of_char c :: nat) \<in> {9, 10, 11, 12, 13, 32, 160})"

definition trim :: "string \<Rightarrow> string" where
  "trim s = rev (dropWhile is_space (rev (dropWhile is_space s)))"

definition row_value :: "'n platform \<Rightarrow> dom_child \<Rightarrow> 'n json" where
  "row_value P r =
     (case d_nested r of
        Some t \<Rightarrow> (case JSON_parse P t of Inr v \<Rightarrow> v | Inl msg \<Rightarrow> JStr t)
      | None \<Rightarrow> (case JSON_parse P (trim (d_text r)) of
                   Inr v \<Rightarrow> v
                 | Inl msg \<Rightarrow> JStr (trim (d_text r))))"

text \<open>
  \<open>dragEnd\<close>: the result is the container the handler worked on, the chain with the
  owning element first, and the exception thrown, if any. The new array is a fresh
  object. The handler is the same in both copies of the component and calls the
  \<open>handleChildUpdate\<close> of its own copy.
\<close>

definition dragEnd_with ::
  "(string \<Rightarrow> 'n json \<Rightarrow> 'n xnode \<Rightarrow> 'n xnode list \<Rightarrow> 'n xnode list \<times> error option)
     \<Rightarrow> 'n platform \<Rightarrow> dom_child drag_container \<Rightarrow> 'n xnode \<Rightarrow> 'n xnode list
     \<Rightarrow> dom_child drag_container \<times> 'n xnode list \<times> error option" where
  "dragEnd_with parent_handleChildUpdate P c self ancestors =
     (let c' = c\<lparr>selected := None\<rparr>;
          rows = filter d_row (kids c');
          newArr = map (row_value P) rows
      in case render P (self\<lparr>input := Some (JArr newArr), shared := False,
                              textContent := JSON_stringify P (JArr newArr)\<rparr>) of
           (self', Some e) \<Rightarrow> (c', self' # ancestors, Some e)
         | (self', None) \<Rightarrow>
             (case (attr_key self', ancestors) of
                (Some myKey, parentHost # rest) \<Rightarrow>
                  if myKey \<noteq> []
                  then (case parent_handleChildUpdate myKey (JArr newArr) parentHost rest of
                          (chain, r) \<Rightarrow>
                            (c', (if stores P myKey (JArr newArr) parentHost
                                  then self'\<lparr>shared := True\<rparr> else self') # chain, r))
                  else (c', self' # ancestors, None)
              | _ \<Rightarrow> (c', self' # ancestors, None)))"

definition dragEnd ::
  "'n platform \<Rightarrow> dom_child drag_container \<Rightarrow> 'n xnode \<Rightarrow> 'n xnode list
     \<Rightarrow> dom_child drag_container \<times> 'n xnode list \<times> error option" where
  "dragEnd P = dragEnd_with (handleChildUpdate P) P"

definition dragEnd_part000 ::
  "'n platform \<Rightarrow> dom_child drag_container \<Rightarrow> 'n xnode \<Rightarrow> 'n xnode list
     \<Rightarrow> dom_child drag_container \<times> 'n xnode list \<times> error option" where
  "dragEnd_part000 P = dragEnd_with (handleChildUpdate_part000 P) P"

text \<open>The children of a rendered container, numbered in document order.\<close>

fun row_text :: "row_el \<Rightarrow> string" where
  "row_text r =
     (case r_key r of None \<Rightarrow> [] | Some k \<Rightarrow> k)
     @ (case r_content r of RowEmptyArray \<Rightarrow> [] | RowPrim el \<Rightarrow> content_text (p_content el))"

fun dom_of_child :: "nat \<Rightarrow> child \<Rightarrow> dom_child" where
  "dom_of_child i (Row r) = \<lparr>d_id = i, d_row = True, d_text = row_text r, d_nested = None\<rparr>"
| "dom_of_child i (KeyButton k ex) = \<lparr>d_id = i, d_row = False, d_text = k, d_nested = None\<rparr>"
| "dom_of_child i (Nested el) = \<lparr>d_id = i, d_row = False, d_text = n_text el, d_nested = None\<rparr>"
| "dom_of_child i _ = \<lparr>d_id = i, d_row = False, d_text = [], d_nested = None\<rparr>"

definition dom_children :: "container \<Rightarrow> dom_child list" where
  "dom_children c = map (\<lambda>(i, ch). dom_of_child i ch) (zip [0..<length (c_children c)] (c_children c))"

section \<open>A small platform for evaluating the model\<close>

text \<open>
  An instance of the platform over integer numbers: \<open>JSON.parse\<close> is a finite table
  of the texts it accepts, \<open>JSON.stringify\<close> prints without spaces, a URL is
  accepted when it starts with \<open>http://\<close> or \<open>https://\<close>, and only a number converts
  to an array length. It is used only to run the definitions on concrete inputs.
\<close>

fun show_int :: "int \<Rightarrow> string" where
  "show_int n = (if n < 0 then CHR ''-'' # String_nat (nat (- n)) else String_nat (nat n))"

fun stringify_demo :: "int json \<Rightarrow> string" where
  "stringify_demo JNull = ''null''"
| "stringify_demo (JBool b) = (if b then ''true'' else ''false'')"
| "stringify_demo (JNum n) = show_int n"
| "stringify_demo (JStr s) = ''\"'' @ s @ ''\"''"
| "stringify_demo (JArr xs) = ''['' @ join '','' (map stringify_demo xs) @ '']''"
| "stringify_demo (JObj kvs) =
     ''{'' @ join '','' (map (\<lambda>(k, v). ''\"'' @ k @ ''\":'' @ stringify_demo v) kvs) @ ''}''"
| "stringify_demo (JSparse es ps) =
     ''['' @ join '','' (map (\<lambda>e. case e of None \<Rightarrow> ''null'' | Some x \<Rightarrow> stringify_demo x) es)
       @ '']''"

fun length_demo :: "int json \<Rightarrow> nat option" where
  "length_demo (JNum n) = (if 0 \<le> n \<and> n < 2 ^ 32 then Some (nat n) else None)"
| "length_demo _ = None"

definition parse_table :: "(string \<times> int json) list \<Rightarrow> string \<Rightarrow> string + int json" where
  "parse_table tbl s =
     (case map_of tbl s of Some v \<Rightarrow> Inr v | None \<Rightarrow> Inl ''Unexpected token'')"

definition demo_platform :: "(string \<times> int json) list \<Rightarrow> int platform" where
  "demo_platform tbl =
     \<lparr>JSON_parse = parse_table tbl, JSON_stringify = stringify_demo,
      URL_ok = (\<lambda>s. take 7 s = ''http://'' \<or> take 8 s = ''https://''),
      Number_toString = show_int, Number_truthy = (\<lambda>n. n \<noteq> 0),
      Array_length = length_demo\<rparr>"

definition demo_node :: "int json \<Rightarrow> int xnode" where
  "demo_node v = new_element\<lparr>input := Some v, textContent := stringify_demo v\<rparr>"

text \<open>The nested elements of a rendered tree.\<close>

fun nested_of :: "view \<Rightarrow> nested_el list" where
  "nested_of (VPrim el) = []"
| "nested_of (VContainer c) = concat (map (\<lambda>ch. case ch of Nested el \<Rightarrow> [el] | _ \<Rightarrow> []) (c_children c))"

definition shadow_nested :: "'n xnode \<Rightarrow> nested_el list" where
  "shadow_nested this = (case shadow this of None \<Rightarrow> [] | Some v \<Rightarrow> nested_of v)"

text \<open>
  Sibling order, to state where a row ends up: \<open>precedes xs a b\<close> when \<open>a\<close> comes
  earlier than \<open>b\<close> among the children \<open>xs\<close>, and \<open>immediately_before xs a b\<close> when
  \<open>b\<close> is the next sibling of \<open>a\<close>.
\<close>

definition precedes :: "'a list \<Rightarrow> 'a \<Rightarrow> 'a \<Rightarrow> bool" where
  "precedes xs a b = (b \<in> set xs \<and> a \<in> set (takeWhile (\<lambda>x. x \<noteq> b) xs))"

definition immediately_before :: "'a list \<Rightarrow> 'a \<Rightarrow> 'a \<Rightarrow> bool" where
  "immediately_before xs a b = ((a, b) \<in> set (zip xs (tl xs)))"




subsection \<open>Mounted examples\<close>

text \<open>
  \<open>mounted txt\<close> is the element \<open><x-pre-json editable expand="2">txt</x-pre-json>\<close>
  once it is connected, \<open>nested_in host\<close> the elements its shadow tree contains, each
  mounted with the attributes the host gave it. \<open>prims_of\<close> are the primitive value
  elements an element has rendered itself, \<open>kids_of\<close> the children of its container
  and \<open>rows_of\<close> those with the class \<open>row\<close>.
\<close>

definition example_table :: "(string \<times> int json) list" where
  "example_table =
     [(''1'', JNum 1), (''2'', JNum 2), (''3'', JNum 3), (''5'', JNum 5), (''7'', JNum 7),
      (''[1,2,3]'', JArr [JNum 1, JNum 2, JNum 3]),
      (''{\"\":[1,2,3]}'', JObj [([], JArr [JNum 1, JNum 2, JNum 3])]),
      (''{\"a\":[1,2,3]}'', JObj [(''a'', JArr [JNum 1, JNum 2, JNum 3])]),
      (''{\"x\":5}'', JObj [(''x'', JNum 5)]),
      (''{\"\":5}'', JObj [([], JNum 5)]),
      (''{\"a\":{\"\":5}}'', JObj [(''a'', JObj [([], JNum 5)])]),
      (''{\"a\":{\"x\":5}}'', JObj [(''a'', JObj [(''x'', JNum 5)])])]"

definition mounted :: "string \<Rightarrow> int xnode" where
  "mounted txt =
     fst (connectedCallback (demo_platform example_table)
       (setAttribute_editable (demo_platform example_table) []
         (setAttribute_expand (demo_platform example_table) (AInt 2)
           (new_element\<lparr>textContent := txt\<rparr>))))"

definition nested_in :: "int xnode \<Rightarrow> int xnode list" where
  "nested_in host =
     map (\<lambda>el. fst (mount_nested (demo_platform example_table) el)) (shadow_nested host)"

definition prims_of :: "'n xnode \<Rightarrow> prim_el list" where
  "prims_of this =
     (case shadow this of
        None \<Rightarrow> []
      | Some (VPrim el) \<Rightarrow> [el]
      | Some (VContainer c) \<Rightarrow>
          concat (map (\<lambda>ch. case ch of
                               Row r \<Rightarrow> (case r_content r of RowPrim el \<Rightarrow> [el] | _ \<Rightarrow> [])
                             | _ \<Rightarrow> []) (c_children c)))"

definition kids_of :: "'n xnode \<Rightarrow> dom_child list" where
  "kids_of this =
     (case shadow this of
        Some (VContainer c) \<Rightarrow> dom_children c
      | _ \<Rightarrow> [])"

definition rows_of :: "'n xnode \<Rightarrow> dom_child list" where
  "rows_of this = filter d_row (kids_of this)"

text \<open>
  Clicking the first primitive of an editable element and typing \<open>t\<close> into it, and
  dragging the first of three rows over the last one.
\<close>

definition typed :: "string \<Rightarrow> int xnode \<Rightarrow> int xnode list \<Rightarrow> int editing \<times> error option" where
  "typed t host ancestors =
     edit_step (demo_platform example_table) (InputText t)
       (click (hd (prims_of host)) host ancestors)"

definition dragged_first_to_last :: "'n xnode \<Rightarrow> dom_child drag_container" where
  "dragged_first_to_last this =
     fst (dragOver (rows_of this ! 2)
            (dragStart (rows_of this ! 0) \<lparr>selected = None, kids = kids_of this\<rparr>))"

section \<open>Truncation of strings\<close>

text \<open>
  C10. A string that is not rendered as a link is cut only when it is strictly longer
  than the truncation limit: a string of at most \<open>limit\<close> code units is rendered in
  full, with no continuation control; a longer one is rendered as its first \<open>limit\<close>
  code units followed by the control, which is the empty prefix when the limit is 0.
\<close>

theorem string_truncation:
  assumes "\<not> isValidStringURL P this"
  shows "0 \<le> truncateStringAttributeValue this
    \<and> (int (length s) \<le> truncateStringAttributeValue this \<longrightarrow>
         p_content (createPrimitiveValueElement P this (Some (JStr s)) key) = Plain s)
    \<and> (int (length s) > truncateStringAttributeValue this \<longrightarrow>
         p_content (createPrimitiveValueElement P this (Some (JStr s)) key)
           = Truncated (take (nat (truncateStringAttributeValue this)) s) s
         \<and> length (take (nat (truncateStringAttributeValue this)) s)
           = nat (truncateStringAttributeValue this))
    \<and> (truncateStringAttributeValue this = 0 \<and> s \<noteq> [] \<longrightarrow>
         p_content (createPrimitiveValueElement P this (Some (JStr s)) key) = Truncated [] s)"
proof -
  have nonneg: "0 \<le> truncateStringAttributeValue this"
    by (simp add: truncateStringAttributeValue_def split: option.splits num_attr.splits)
  show ?thesis
    using assms nonneg
    by (auto simp: createPrimitiveValueElement_def createTruncatedStringElement_def)
qed

theorem string_truncation_witness:
  "\<not> isValidStringURL (demo_platform [])
        ((demo_node (JObj [(''s'', JStr ''abcd'')]))\<lparr>attr_truncate := Some (AInt 3)\<rparr>)
   \<and> p_content (createPrimitiveValueElement (demo_platform [])
        ((demo_node (JObj [(''s'', JStr ''abcd'')]))\<lparr>attr_truncate := Some (AInt 3)\<rparr>)
        (Some (JStr ''abcd'')) (Some ''s'')) = Truncated ''abc'' ''abcd''
   \<and> p_content (createPrimitiveValueElement (demo_platform [])
        ((demo_node (JObj [(''s'', JStr ''abcd'')]))\<lparr>attr_truncate := Some (AInt 3)\<rparr>)
        (Some (JStr ''abc'')) (Some ''s'')) = Plain ''abc''"
proof -
  let ?P = "demo_platform []"
  let ?n = "(demo_node (JObj [(''s'', JStr ''abcd'')]))\<lparr>attr_truncate := Some (AInt 3)\<rparr>"
  have u: "\<not> isValidStringURL ?P ?n"
    by (simp add: isValidStringURL_def demo_platform_def demo_node_def new_element_def
        input_String_def)
  have l: "truncateStringAttributeValue ?n = 3"
    by (simp add: truncateStringAttributeValue_def demo_node_def)
  show ?thesis
    using u l string_truncation [OF u, of "''abcd''" "Some ''s''"]
      string_truncation [OF u, of "''abc''" "Some ''s''"]
    by simp
qed

section \<open>Rendering does not depend on what was rendered before\<close>

lemma createEntry_nested:
  "createEntry P this object i key val = Nested el \<Longrightarrow>
     n_expand el = AInt (expandAttributeValue this - 1)
   \<and> n_truncate el = AInt (truncateStringAttributeValue this)
   \<and> n_key el = key
   \<and> n_text el = JSON_stringify P val
   \<and> n_editable el = (if editable this then [] else ''false'')
   \<and> n_array_size el = (if arrSize this then [] else ''false'')"
  by (auto simp: createEntry_def split: if_splits)

lemma nested_of_createChild:
  assumes "el \<in> set (nested_of (createChild P this inp))"
  shows "n_expand el = AInt (expandAttributeValue this - 1)
   \<and> n_truncate el = AInt (truncateStringAttributeValue this)
   \<and> n_editable el = (if editable this then [] else ''false'')
   \<and> n_array_size el = (if arrSize this then [] else ''false'')"
proof -
  from assms obtain object where c: "el \<in> set (nested_of (VContainer (createObjectOrArray P this object)))"
    by (auto simp: createChild_def split: option.splits json.splits)
  then obtain ch where ch: "ch \<in> set (c_children (createObjectOrArray P this object))" "ch = Nested el"
    by (auto split: child.splits)
  then obtain i key val where "createEntry P this object i key val = Nested el"
    by (auto simp: createObjectOrArray_def Let_def split: option.splits if_splits)
  then show ?thesis using createEntry_nested by blast
qed

lemma render_fields:
  "isExpanded (fst (render P this)) = isExpanded this"
  "attr_expand (fst (render P this)) = attr_expand this"
  "editable (fst (render P this)) = editable this"
  "arrSize (fst (render P this)) = arrSize this"
  "input (fst (render P this)) = input this"
  "hasShadowRoot (fst (render P this)) = hasShadowRoot this"
  "attr_key (fst (render P this)) = attr_key this"
  "textContent (fst (render P this)) = textContent this"
  by (simp_all add: render_def)

lemma render_shadow:
  "hasShadowRoot this \<Longrightarrow> render P this = (this\<lparr>shadow := Some (createChild P this (input this))\<rparr>, None)"
  by (simp add: render_def)

lemma setAttribute_expand_fields:
  "attr_expand (setAttribute_expand P v this) = Some v"
  "isExpanded (setAttribute_expand P v this) = (case v of ANaN \<Rightarrow> False | AInt n \<Rightarrow> n > 0)"
  "input (setAttribute_expand P v this) = input this"
  "hasShadowRoot (setAttribute_expand P v this) = hasShadowRoot this"
  "editable (setAttribute_expand P v this) = editable this"
  by (simp_all add: setAttribute_expand_def attributeChangedCallback_def render_fields split: num_attr.splits)

lemma expandAttributeValue_nonneg: "0 \<le> expandAttributeValue this"
  by (simp add: expandAttributeValue_def split: option.splits num_attr.splits)

lemma toggle_fields:
  "isExpanded (fst (toggle P this)) = (\<not> isExpanded this)"
  "attr_expand (fst (toggle P this)) = Some (if isExpanded this then AInt 0 else AInt (expandAttributeValue this + 1))"
  "hasShadowRoot (fst (toggle P this)) = hasShadowRoot this"
  "input (fst (toggle P this)) = input this"
  using expandAttributeValue_nonneg [of this]
  by (auto simp: toggle_def Let_def render_fields setAttribute_expand_fields expandAttributeValue_def)

lemma createPrimitiveValueElement_shadow:
  "createPrimitiveValueElement P (this\<lparr>shadow := sh\<rparr>) inp key
     = createPrimitiveValueElement P this inp key"
  by (simp add: createPrimitiveValueElement_def isValidStringURL_def
      truncateStringAttributeValue_def createTruncatedStringElement_def
      split: option.splits json.splits)

lemma createEntry_shadow:
  "createEntry P (this\<lparr>shadow := sh\<rparr>) object = createEntry P this object"
  by (intro ext) (simp add: createEntry_def createPrimitiveValueElement_shadow
      expandAttributeValue_def truncateStringAttributeValue_def)

lemma createObjectOrArray_shadow:
  "createObjectOrArray P (this\<lparr>shadow := sh\<rparr>) object = createObjectOrArray P this object"
  by (simp add: createObjectOrArray_def createEntry_shadow Let_def split: option.splits)

lemma createChild_shadow [simp]:
  "createChild P (this\<lparr>shadow := sh\<rparr>) inp = createChild P this inp"
  by (simp add: createChild_def createObjectOrArray_shadow createPrimitiveValueElement_shadow
      split: option.splits json.splits)

lemma render_shadow_self:
  "hasShadowRoot this \<Longrightarrow>
     shadow (fst (render P this)) = Some (createChild P (fst (render P this)) (input this))"
  by (simp add: render_def)

lemma toggle_shadow:
  "hasShadowRoot this \<Longrightarrow>
     shadow (fst (toggle P this)) = Some (createChild P (fst (toggle P this)) (input this))"
  unfolding toggle_def Let_def
  by (subst render_shadow_self) (simp_all add: setAttribute_expand_fields)

lemmas eval_defs =
  toggle_def setAttribute_expand_def attributeChangedCallback_def render_def createChild_def
  createObjectOrArray_def createEntry_def createPrimitiveValueElement_def isValidStringURL_def
  expandAttributeValue_def truncateStringAttributeValue_def createTruncatedStringElement_def
  demo_node_def new_element_def demo_platform_def shadow_nested_def input_String_def
  mount_nested_def connectedCallback_def setAttribute_array_size_def setAttribute_editable_def
  setAttribute_key_def setAttribute_truncate_def parse_table_def Let_def


section \<open>Toggling\<close>

text \<open>
  C9. Two calls of \<open>toggle\<close> restore the expanded flag. A call that collapses sets
  the \<open>expand\<close> attribute to 0; a call that expands sets it to one plus the value read
  from the attribute before the call. So an expanded element, whatever depth it was
  configured with, has depth 1 after collapsing and expanding, and every nested
  element it then renders gets depth 0 and mounts collapsed.
\<close>

theorem toggle_twice:
  "isExpanded (fst (toggle P (fst (toggle P this)))) = isExpanded this
   \<and> (isExpanded this \<longrightarrow>
        \<not> isExpanded (fst (toggle P this)) \<and> attr_expand (fst (toggle P this)) = Some (AInt 0))
   \<and> (\<not> isExpanded this \<longrightarrow>
        isExpanded (fst (toggle P this))
        \<and> attr_expand (fst (toggle P this)) = Some (AInt (expandAttributeValue this + 1)))
   \<and> (isExpanded this \<longrightarrow>
        expandAttributeValue (fst (toggle P (fst (toggle P this)))) = 1)
   \<and> (isExpanded this \<and> hasShadowRoot this \<longrightarrow>
        (\<forall>el \<in> set (shadow_nested (fst (toggle P (fst (toggle P this))))).
           n_expand el = AInt 0 \<and> \<not> isExpanded (fst (mount_nested P el))))"
proof -
  let ?t1 = "fst (toggle P this)"
  let ?t2 = "fst (toggle P ?t1)"
  have a: "isExpanded ?t2 = isExpanded this" by (simp add: toggle_fields)
  have b: "isExpanded this \<longrightarrow> \<not> isExpanded ?t1 \<and> attr_expand ?t1 = Some (AInt 0)"
    by (simp add: toggle_fields)
  have c: "\<not> isExpanded this \<longrightarrow> isExpanded ?t1
        \<and> attr_expand ?t1 = Some (AInt (expandAttributeValue this + 1))"
    by (simp add: toggle_fields)
  have d: "isExpanded this \<longrightarrow> expandAttributeValue ?t2 = 1"
    by (simp add: toggle_fields expandAttributeValue_def)
  have e: "n_expand el = AInt 0 \<and> \<not> isExpanded (fst (mount_nested P el))"
    if ex: "isExpanded this" and sh: "hasShadowRoot this"
      and el: "el \<in> set (shadow_nested ?t2)" for el
  proof -
    have "hasShadowRoot ?t1" using sh by (simp add: toggle_fields)
    then have "shadow ?t2 = Some (createChild P ?t2 (input ?t1))" by (rule toggle_shadow)
    with el have "el \<in> set (nested_of (createChild P ?t2 (input ?t1)))"
      by (simp add: shadow_nested_def)
    then have "n_expand el = AInt (expandAttributeValue ?t2 - 1)"
      using nested_of_createChild by blast
    with d ex have z: "n_expand el = AInt 0" by simp
    have "isExpanded (fst (mount_nested P el)) = isExpanded (setAttribute_expand P (n_expand el) (new_element\<lparr>textContent := n_text el\<rparr>))"
      by (simp add: mount_nested_def connectedCallback_def render_fields
          setAttribute_array_size_def setAttribute_editable_def setAttribute_key_def
          setAttribute_truncate_def attributeChangedCallback_def split: sum.splits)
    with z show ?thesis by (simp add: setAttribute_expand_fields)
  qed
  from a b c d e show ?thesis by blast
qed


theorem toggle_twice_witness:
  "isExpanded ((demo_node (JObj [(''b'', JObj [(''c'', JNum 1)])]))
       \<lparr>attr_key := Some ''a'', attr_expand := Some (AInt 2)\<rparr>)
   \<and> expandAttributeValue ((demo_node (JObj [(''b'', JObj [(''c'', JNum 1)])]))
       \<lparr>attr_key := Some ''a'', attr_expand := Some (AInt 2)\<rparr>) = 2
   \<and> expandAttributeValue (fst (toggle (demo_platform []) (fst (toggle (demo_platform [])
       ((demo_node (JObj [(''b'', JObj [(''c'', JNum 1)])]))
       \<lparr>attr_key := Some ''a'', attr_expand := Some (AInt 2)\<rparr>))))) = 1
   \<and> map n_key (shadow_nested (fst (toggle (demo_platform []) (fst (toggle (demo_platform [])
       ((demo_node (JObj [(''b'', JObj [(''c'', JNum 1)])]))
       \<lparr>attr_key := Some ''a'', attr_expand := Some (AInt 2)\<rparr>)))))) = [''b'']
   \<and> map (\<lambda>el. (n_expand el, isExpanded (fst (mount_nested (demo_platform []) el))))
        (shadow_nested (fst (toggle (demo_platform []) (fst (toggle (demo_platform [])
       ((demo_node (JObj [(''b'', JObj [(''c'', JNum 1)])]))
       \<lparr>attr_key := Some ''a'', attr_expand := Some (AInt 2)\<rparr>))))))
       = [(AInt 0, False)]"
proof -
  let ?P = "demo_platform []"
  let ?n = "(demo_node (JObj [(''b'', JObj [(''c'', JNum 1)])]))
       \<lparr>attr_key := Some ''a'', attr_expand := Some (AInt 2)\<rparr>"
  have h: "isExpanded ?n" "hasShadowRoot ?n" "expandAttributeValue ?n = 2"
    by (simp_all add: demo_node_def new_element_def expandAttributeValue_def)
  have k: "map n_key (shadow_nested (fst (toggle ?P (fst (toggle ?P ?n))))) = [''b'']"
    by (simp add: eval_defs)
  from k obtain el where
    el: "shadow_nested (fst (toggle ?P (fst (toggle ?P ?n)))) = [el]"
    by (cases "shadow_nested (fst (toggle ?P (fst (toggle ?P ?n))))") auto
  show ?thesis
    using h k el toggle_twice [of ?P ?n] by simp
qed

section \<open>Mounting\<close>

text \<open>
  C7. When the text of the element does not parse, \<open>connectedCallback\<close> throws the
  component's own error, whose message names the parse error, and leaves the element
  as it was: no value, and nothing rendered by this call. When the text parses, the
  call does not throw, the value of the element is the parsed value and the shadow
  tree is the rendering of that value.
\<close>

theorem mount_parses_or_fails:
  "(JSON_parse P (textContent this) = Inl msg \<longrightarrow>
      connectedCallback P this = (this, Some (XPreJSONError (''Error parsing JSON: '' @ msg))))
   \<and> (JSON_parse P (textContent this) = Inr v \<and> hasShadowRoot this \<longrightarrow>
      snd (connectedCallback P this) = None
      \<and> input (fst (connectedCallback P this)) = Some v
      \<and> shadow (fst (connectedCallback P this))
          = Some (createChild P (fst (connectedCallback P this)) (Some v)))"
  by (simp add: connectedCallback_def render_def)

theorem mount_parses_or_fails_witness:
  "connectedCallback (demo_platform [(''{\"x\":5}'', JObj [(''x'', JNum 5)])])
       (new_element\<lparr>textContent := ''{\"x\":''\<rparr>)
     = (new_element\<lparr>textContent := ''{\"x\":''\<rparr>,
        Some (XPreJSONError ''Error parsing JSON: Unexpected token''))
   \<and> shadow (new_element\<lparr>textContent := ''{\"x\":''\<rparr> :: int xnode) = None
   \<and> snd (connectedCallback (demo_platform [(''{\"x\":5}'', JObj [(''x'', JNum 5)])])
       (new_element\<lparr>textContent := ''{\"x\":5}''\<rparr>)) = None
   \<and> input (fst (connectedCallback (demo_platform [(''{\"x\":5}'', JObj [(''x'', JNum 5)])])
       (new_element\<lparr>textContent := ''{\"x\":5}''\<rparr>))) = Some (JObj [(''x'', JNum 5)])"
proof -
  let ?P = "demo_platform [(''{\"x\":5}'', JObj [(''x'', JNum 5)])]"
  have bad: "JSON_parse ?P (textContent (new_element\<lparr>textContent := ''{\"x\":''\<rparr> :: int xnode))
      = Inl ''Unexpected token''"
    by (simp add: demo_platform_def parse_table_def new_element_def)
  have good: "JSON_parse ?P (textContent (new_element\<lparr>textContent := ''{\"x\":5}''\<rparr> :: int xnode))
      = Inr (JObj [(''x'', JNum 5)])"
    "hasShadowRoot (new_element\<lparr>textContent := ''{\"x\":5}''\<rparr> :: int xnode)"
    by (simp_all add: demo_platform_def parse_table_def new_element_def)
  have sh: "shadow (new_element\<lparr>textContent := ''{\"x\":''\<rparr> :: int xnode) = None"
    by (simp add: new_element_def)
  show ?thesis
    using bad good sh
      mount_parses_or_fails [of ?P "new_element\<lparr>textContent := ''{\"x\":''\<rparr>" "''Unexpected token''" "JObj [(''x'', JNum 5)]"]
      mount_parses_or_fails [of ?P "new_element\<lparr>textContent := ''{\"x\":5}''\<rparr>" "''Unexpected token''" "JObj [(''x'', JNum 5)]"]
    by simp
qed

section \<open>The guard of \<open>render\<close>\<close>

text \<open>
  C8, as stated in the specification, says that \<open>render\<close> on an element whose value
  has not been initialized raises a typed error. It does not: a new element, whose
  value is still undefined, renders without an exception, as an empty primitive.
\<close>

theorem render_uninitialized_counterexample:
  "input (new_element :: int xnode) = None
   \<and> snd (render (demo_platform []) new_element) = None
   \<and> shadow (fst (render (demo_platform []) new_element))
       = Some (VPrim \<lparr>p_type = TUndefined, p_key = [], p_content = Plain [], p_click = False\<rparr>)"
  by (simp add: render_def new_element_def createChild_def createPrimitiveValueElement_def)

text \<open>
  C8, amended. \<open>render\<close> throws exactly when the element has no shadow root, and then
  it throws the component's own error. With a shadow root it never throws: it renders
  the current value, and an uninitialized value is rendered as an empty primitive
  element of type \<open>undefined\<close>.
\<close>

theorem render_guard:
  "(snd (render P this) \<noteq> None \<longleftrightarrow> \<not> hasShadowRoot this)
   \<and> (\<not> hasShadowRoot this \<longrightarrow>
        render P this = (this, Some (XPreJSONError ''Shadow root not available'')))
   \<and> (hasShadowRoot this \<longrightarrow>
        snd (render P this) = None
        \<and> shadow (fst (render P this)) = Some (createChild P this (input this)))
   \<and> (hasShadowRoot this \<and> input this = None \<longrightarrow>
        shadow (fst (render P this))
          = Some (VPrim \<lparr>p_type = TUndefined, p_key = [], p_content = Plain [],
                          p_click = editable this\<rparr>))"
  by (simp add: render_def createChild_def createPrimitiveValueElement_def)

theorem render_guard_witness:
  "hasShadowRoot (new_element :: int xnode) \<and> input (new_element :: int xnode) = None
   \<and> snd (render (demo_platform []) new_element) = None
   \<and> \<not> hasShadowRoot ((new_element :: int xnode)\<lparr>hasShadowRoot := False\<rparr>)
   \<and> snd (render (demo_platform []) (new_element\<lparr>hasShadowRoot := False\<rparr>))
       = Some (XPreJSONError ''Shadow root not available'')"
proof -
  have a: "hasShadowRoot (new_element :: int xnode)" "input (new_element :: int xnode) = None"
    "\<not> hasShadowRoot ((new_element :: int xnode)\<lparr>hasShadowRoot := False\<rparr>)"
    by (simp_all add: new_element_def)
  show ?thesis
    using a render_guard [of "demo_platform []" new_element]
      render_guard [of "demo_platform []" "new_element\<lparr>hasShadowRoot := False\<rparr>"]
    by simp
qed


section \<open>What a nested element inherits\<close>

lemma mount_nested_flags:
  "editable (fst (mount_nested P el)) \<and> arrSize (fst (mount_nested P el))"
  by (simp add: mount_nested_def connectedCallback_def render_def
      setAttribute_array_size_def setAttribute_editable_def attributeChangedCallback_def
      split: sum.splits)

text \<open>
  C5 says that a nested element is editable, and shows array sizes, exactly when its
  parent does. The parent passes the flags on as attributes with the value \<open>""\<close> or
  \<open>"false"\<close>, and the nested element reads them with \<open>hasAttribute\<close>: both flags are
  set whatever the value. Here the parent \<open>{"a":{"b":1}}\<close> is neither editable nor
  shows array sizes; the element it creates for \<open>a\<close> gets both attributes with the
  value \<open>"false"\<close> and is editable and shows array sizes once mounted.
\<close>

theorem nested_ignores_false_flag:
  "\<not> editable (demo_node (JObj [(''a'', JObj [(''b'', JNum 1)])]))
   \<and> \<not> arrSize (demo_node (JObj [(''a'', JObj [(''b'', JNum 1)])]))
   \<and> map (\<lambda>el. (n_key el, n_editable el, n_array_size el,
                editable (fst (mount_nested (demo_platform [(''{\"b\":1}'', JObj [(''b'', JNum 1)])]) el)),
                arrSize (fst (mount_nested (demo_platform [(''{\"b\":1}'', JObj [(''b'', JNum 1)])]) el))))
        (nested_of (createChild (demo_platform [(''{\"b\":1}'', JObj [(''b'', JNum 1)])])
           (demo_node (JObj [(''a'', JObj [(''b'', JNum 1)])]))
           (input (demo_node (JObj [(''a'', JObj [(''b'', JNum 1)])])))))
      = [(''a'', ''false'', ''false'', True, True)]"
  by (simp add: eval_defs mount_nested_flags)

section \<open>Strings that are URLs\<close>

text \<open>
  C6 says that a string is rendered as a link exactly when it parses as an absolute
  URL, with the string as the target. \<open>isValidStringURL\<close> tests the value of the
  whole element instead of the string: inside the object \<open>{"u":"https://example.com"}\<close>
  the URL is rendered as plain text, and inside the array
  \<open>["https://example.com/a","b"]\<close> the string \<open>b\<close> is rendered as a link to the text
  of the array.
\<close>

theorem url_in_object_not_linked:
  "URL_ok (demo_platform []) ''https://example.com''
   \<and> p_content (createPrimitiveValueElement (demo_platform [])
        (demo_node (JObj [(''u'', JStr ''https://example.com'')]))
        (Some (JStr ''https://example.com'')) (Some ''u''))
      = Plain ''https://example.com''
   \<and> \<not> URL_ok (demo_platform []) ''b''
   \<and> p_content (createPrimitiveValueElement (demo_platform [])
        (demo_node (JArr [JStr ''https://example.com/a'', JStr ''b'']))
        (Some (JStr ''b'')) (Some ''1''))
      = Link ''https://example.com/a,b'' ''_blank'' ''b''"
  by (simp add: eval_defs)

section \<open>Dragging a row over another\<close>

lemma takeWhile_neq_append:
  "x \<notin> set A \<Longrightarrow> takeWhile (\<lambda>y. y \<noteq> x) (A @ x # B) = A"
  by (induction A) auto

lemma dropWhile_neq_append:
  "x \<notin> set A \<Longrightarrow> dropWhile (\<lambda>y. y \<noteq> x) (A @ x # B) = x # B"
  by (induction A) auto

lemma walk_previous_set: "walk_previous xs y = (y \<in> set xs)"
  by (induction xs) auto

lemma isBefore_precedes:
  "el1 \<in> set xs \<Longrightarrow> el2 \<in> set xs \<Longrightarrow> isBefore xs el1 el2 = precedes xs el2 el1"
  by (simp add: isBefore_def precedes_def walk_previous_set)

lemma immediately_before_append:
  "immediately_before (A @ a # b # B) a b"
proof (induction A)
  case Nil
  show ?case by (simp add: immediately_before_def)
next
  case (Cons x A)
  then show ?case by (cases A) (auto simp: immediately_before_def)
qed

lemma precedes_split:
  assumes "precedes xs a b"
  obtains A B C where "xs = A @ a # B @ b # C"
proof -
  from assms have b: "b \<in> set xs" and a: "a \<in> set (takeWhile (\<lambda>x. x \<noteq> b) xs)"
    by (simp_all add: precedes_def)
  from b obtain T C where xs: "xs = T @ b # C" "b \<notin> set T"
    by (meson split_list_first)
  then have tw: "takeWhile (\<lambda>x. x \<noteq> b) xs = T" by (simp add: takeWhile_neq_append)
  with a have "a \<in> set T" by simp
  then obtain A B where T: "T = A @ a # B" by (meson split_list)
  with xs have "xs = A @ a # B @ b # C" by simp
  then show ?thesis by (rule that)
qed

lemma precedes_total:
  assumes "a \<in> set xs" "b \<in> set xs" "a \<noteq> b"
  shows "precedes xs a b \<or> precedes xs b a"
proof -
  from assms(2) obtain T C where xs: "xs = T @ b # C" "b \<notin> set T"
    by (meson split_list_first)
  show ?thesis
  proof (cases "a \<in> set T")
    case True
    then show ?thesis using xs assms by (simp add: precedes_def takeWhile_neq_append)
  next
    case False
    with xs assms have "a \<in> set C" by auto
    then obtain C1 C2 where C: "C = C1 @ a # C2" "a \<notin> set C1" by (meson split_list_first)
    have "takeWhile (\<lambda>x. x \<noteq> a) xs = T @ b # C1"
      using takeWhile_neq_append [of a "T @ b # C1" C2] xs C False assms by simp
    then show ?thesis using assms by (simp add: precedes_def)
  qed
qed






lemma dragOver_target_earlier:
  assumes xs: "kids c = A @ t # B @ d # C" and dist: "distinct (kids c)"
    and sel: "selected c = Some d"
  shows "dragOver t c = (c\<lparr>kids := A @ d # t # B @ C\<rparr>, None)"
proof -
  from xs dist have ne: "d \<noteq> t" "t \<notin> set A" "d \<notin> set A" "d \<notin> set B" by auto
  have tw: "takeWhile (\<lambda>x. x \<noteq> d) (kids c) = A @ t # B"
    using takeWhile_neq_append [of d "A @ t # B" C] xs ne by simp
  have before: "isBefore (kids c) d t"
    using xs tw by (simp add: isBefore_def walk_previous_set)
  have rm: "remove1 d (kids c) = A @ t # B @ C"
    using xs ne by (simp add: remove1_append)
  have "insertBefore (kids c) d (Some t) = Inr (A @ d # t # B @ C)"
    using xs ne rm takeWhile_neq_append [of t A "B @ C"] dropWhile_neq_append [of t A "B @ C"]
    by (simp add: insertBefore_def)
  with before sel ne xs show ?thesis by (simp add: dragOver_def)
qed




lemma dragOver_target_later:
  assumes xs: "kids c = A @ d # B @ t # C" and dist: "distinct (kids c)"
    and sel: "selected c = Some d"
  shows "dragOver t c = (c\<lparr>kids := A @ B @ t # d # C\<rparr>, None)"
proof -
  from xs dist have ne: "d \<noteq> t" "t \<notin> set A" "d \<notin> set A" "t \<notin> set B" by auto
  have tw: "takeWhile (\<lambda>x. x \<noteq> d) (kids c) = A"
    using takeWhile_neq_append [of d A "B @ t # C"] xs ne by simp
  have before: "\<not> isBefore (kids c) d t"
    using xs tw ne by (simp add: isBefore_def walk_previous_set)
  have rm: "remove1 d (kids c) = A @ B @ t # C"
    using xs ne by (simp add: remove1_append)
  have dw: "dropWhile (\<lambda>x. x \<noteq> t) (kids c) = t # C"
    using dropWhile_neq_append [of t "A @ d # B" C] xs ne by simp
  have "insertBefore (kids c) d (nextSibling (kids c) t) = Inr (A @ B @ t # d # C)"
  proof (cases C)
    case Nil
    then show ?thesis using dw rm by (simp add: nextSibling_def insertBefore_def)
  next
    case (Cons y C')
    with xs dist have y: "y \<noteq> d" "y \<noteq> t" "y \<notin> set A" "y \<notin> set B" "y \<in> set (kids c)"
      by auto
    have "takeWhile (\<lambda>x. x \<noteq> y) (A @ B @ t # y # C') = A @ B @ [t]"
      and "dropWhile (\<lambda>x. x \<noteq> y) (A @ B @ t # y # C') = y # C'"
      using takeWhile_neq_append [of y "A @ B @ [t]" C']
        dropWhile_neq_append [of y "A @ B @ [t]" C'] y by simp_all
    with Cons dw rm y show ?thesis by (simp add: nextSibling_def insertBefore_def)
  qed
  with before sel ne xs show ?thesis by (simp add: dragOver_def)
qed




lemma precedes_asym:
  assumes "distinct xs" and "precedes xs a b"
  shows "\<not> precedes xs b a"
proof -
  from assms(2) obtain A B C where x: "xs = A @ a # B @ b # C"
    by (rule precedes_split)
  with assms(1) have "a \<notin> set A" "b \<notin> set A" by auto
  then have "takeWhile (\<lambda>y. y \<noteq> a) xs = A"
    using x takeWhile_neq_append [of a A "B @ b # C"] by simp
  then show ?thesis using \<open>b \<notin> set A\<close> by (simp add: precedes_def)
qed

text \<open>
  C4, as stated in the specification, says that a dragged row that comes earlier than
  the candidate is moved to just before the candidate, and otherwise to just after it.
  The handler does the opposite: dragging the first of three rows over the second
  puts it just after the second, and dragging the third over the second puts it just
  before the second.
\<close>

theorem dragOver_direction_counterexample:
  "precedes [0, 1, 2 :: nat] 0 1
   \<and> kids (fst (dragOver 1 \<lparr>selected = Some 0, kids = [0, 1, 2 :: nat]\<rparr>)) = [1, 0, 2]
   \<and> \<not> immediately_before (kids (fst (dragOver 1 \<lparr>selected = Some 0, kids = [0, 1, 2 :: nat]\<rparr>))) 0 1
   \<and> \<not> precedes [0, 1, 2 :: nat] 2 1
   \<and> kids (fst (dragOver 1 \<lparr>selected = Some 2, kids = [0, 1, 2 :: nat]\<rparr>)) = [0, 2, 1]
   \<and> \<not> immediately_before (kids (fst (dragOver 1 \<lparr>selected = Some 2, kids = [0, 1, 2 :: nat]\<rparr>))) 1 2"
  by code_simp




text \<open>
  C4, amended. When a dragged row is recorded, is a child of the container and differs
  from the candidate row: if the candidate comes earlier than the dragged row, the
  dragged row is moved to just before the candidate; otherwise, the dragged row coming
  earlier, it is moved to just after the candidate. The other children keep their
  order and the recorded row stays recorded.
\<close>

theorem dragOver_moves_row:
  assumes "distinct (kids c)" and "selected c = Some dragged"
    and "dragged \<in> set (kids c)" and "targetRow \<in> set (kids c)" and "dragged \<noteq> targetRow"
  shows "snd (dragOver targetRow c) = None
    \<and> selected (fst (dragOver targetRow c)) = Some dragged
    \<and> remove1 dragged (kids (fst (dragOver targetRow c))) = remove1 dragged (kids c)
    \<and> (precedes (kids c) targetRow dragged \<longrightarrow>
         immediately_before (kids (fst (dragOver targetRow c))) dragged targetRow)
    \<and> (precedes (kids c) dragged targetRow \<longrightarrow>
         immediately_before (kids (fst (dragOver targetRow c))) targetRow dragged)
    \<and> (precedes (kids c) targetRow dragged \<or> precedes (kids c) dragged targetRow)"
proof -
  have tot: "precedes (kids c) targetRow dragged \<or> precedes (kids c) dragged targetRow"
    using precedes_total [OF assms(4) assms(3)] assms(5) by blast
  show ?thesis
  proof (cases "precedes (kids c) targetRow dragged")
    case True
    then have p: "precedes (kids c) targetRow dragged" .
    from p obtain A B C where x: "kids c = A @ targetRow # B @ dragged # C"
      by (rule precedes_split)
    have n: "\<not> precedes (kids c) dragged targetRow"
      using precedes_asym [OF assms(1) p] .
    from x assms(1) have d: "dragged \<notin> set A" "dragged \<notin> set B" by auto
    have r: "dragOver targetRow c = (c\<lparr>kids := A @ dragged # targetRow # B @ C\<rparr>, None)"
      using dragOver_target_earlier [OF x assms(1) assms(2)] .
    have rm: "remove1 dragged (A @ dragged # targetRow # B @ C) = remove1 dragged (kids c)"
      using d assms(5) by (simp add: x remove1_append)
    have ib: "immediately_before (A @ dragged # targetRow # B @ C) dragged targetRow"
      by (rule immediately_before_append)
    have k: "kids (fst (dragOver targetRow c)) = A @ dragged # targetRow # B @ C"
      by (simp add: r)
    have s: "snd (dragOver targetRow c) = None" by (simp add: r)
    have se: "selected (fst (dragOver targetRow c)) = Some dragged"
      using assms(2) by (simp add: r)
    from s se rm ib p n show ?thesis unfolding k by blast
  next
    case False
    with tot have p: "precedes (kids c) dragged targetRow" by blast
    from p obtain A B C where x: "kids c = A @ dragged # B @ targetRow # C"
      by (rule precedes_split)
    have n: "\<not> precedes (kids c) targetRow dragged"
      using precedes_asym [OF assms(1) p] .
    from x assms(1) have d: "dragged \<notin> set A" "dragged \<notin> set B" by auto
    have r: "dragOver targetRow c = (c\<lparr>kids := A @ B @ targetRow # dragged # C\<rparr>, None)"
      using dragOver_target_later [OF x assms(1) assms(2)] .
    have rm: "remove1 dragged (A @ B @ targetRow # dragged # C) = remove1 dragged (kids c)"
      using d assms(5) by (simp add: x remove1_append)
    have ib: "immediately_before (A @ B @ targetRow # dragged # C) targetRow dragged"
      using immediately_before_append [of "A @ B" targetRow dragged C] by simp
    have k: "kids (fst (dragOver targetRow c)) = A @ B @ targetRow # dragged # C"
      by (simp add: r)
    have s: "snd (dragOver targetRow c) = None" by (simp add: r)
    have se: "selected (fst (dragOver targetRow c)) = Some dragged"
      using assms(2) by (simp add: r)
    from s se rm ib p n show ?thesis unfolding k by blast
  qed
qed




theorem dragOver_moves_row_witness:
  "distinct [0, 1, 2 :: nat]
   \<and> precedes [0, 1, 2 :: nat] 0 2
   \<and> immediately_before (kids (fst (dragOver 2 \<lparr>selected = Some 0, kids = [0, 1, 2 :: nat]\<rparr>))) 2 0
   \<and> precedes [0, 1, 2 :: nat] 1 2
   \<and> immediately_before (kids (fst (dragOver 1 \<lparr>selected = Some 2, kids = [0, 1, 2 :: nat]\<rparr>))) 2 1"
proof -
  have p: "precedes [0, 1, 2 :: nat] 0 2" "precedes [0, 1, 2 :: nat] 1 2"
    by (simp_all add: precedes_def)
  show ?thesis
    using p dragOver_moves_row [of "\<lparr>selected = Some 0, kids = [0, 1, 2 :: nat]\<rparr>" 0 2]
      dragOver_moves_row [of "\<lparr>selected = Some 2, kids = [0, 1, 2 :: nat]\<rparr>" 2 1]
    by simp
qed

section \<open>Propagating a change to the ancestors\<close>

subsection \<open>Assigning a property\<close>














subsection \<open>One call and the calls it makes on the hosts\<close>
















text \<open>
  The comparison with \<open>2^32 - 1\<close> is evaluated on integers.
\<close>

lemma array_index_code [code]:
  "array_index s =
     (if s \<noteq> [] \<and> list_all is_digit s \<and> (s = ''0'' \<or> hd s \<noteq> CHR ''0'')
         \<and> int (dec_value s) < 4294967295
      then Some (dec_value s) else None)"
proof -
  have "(dec_value s < 2 ^ 32 - 1) = (int (dec_value s) < 4294967295)" by simp
  then show ?thesis by (simp add: array_index_def)
qed






section \<open>Editing a primitive\<close>

text \<open>
  C2 says that every change of the text of a primitive that is being edited derives a
  value by the type tag and propagates the key and the value upward. The handler tests
  the key for truthiness before it calls \<open>handleChildUpdate\<close>, and otherwise assigns
  \<open>host.input[key]\<close> itself and calls no other element. The primitive of the element
  mounted from \<open>5\<close> has the key \<open>""\<close>: typing \<open>7\<close> throws a TypeError, and the element
  keeps the value \<open>5\<close> and the text \<open>5\<close>. In \<open>{"a":{"":5}}\<close> the primitive of the nested
  element has the key \<open>""\<close> as well: typing \<open>7\<close> leaves the nested element with the
  text \<open>{"":7}\<close> and its host with the text \<open>{"a":{"":5}}\<close>. With the key \<open>x\<close>, in
  \<open>{"a":{"x":5}}\<close>, the same edit reaches the host, and in \<open>{"x":5}\<close> typing \<open>7\<close> and
  pressing \<open>Enter\<close> leaves the text \<open>{"x":7}\<close> with the number 7.
\<close>

theorem typing_under_empty_key_not_propagated:
  "map (\<lambda>el. (p_key el, p_type el, p_click el)) (prims_of (mounted ''5''))
      = [([], TNumber, True)]
   \<and> snd (typed ''7'' (mounted ''5'') []) = Some TypeError
   \<and> input (e_host (fst (typed ''7'' (mounted ''5'') []))) = Some (JNum 5)
   \<and> textContent (e_host (fst (typed ''7'' (mounted ''5'') []))) = ''5''
   \<and> map (\<lambda>el. (p_key el, p_type el, p_click el))
        (prims_of (hd (nested_in (mounted ''{\"a\":{\"\":5}}''))))
      = [([], TNumber, True)]
   \<and> snd (typed ''7'' (hd (nested_in (mounted ''{\"a\":{\"\":5}}'')))
             [mounted ''{\"a\":{\"\":5}}'']) = None
   \<and> map textContent
        (e_host (fst (typed ''7'' (hd (nested_in (mounted ''{\"a\":{\"\":5}}'')))
                        [mounted ''{\"a\":{\"\":5}}'']))
         # e_ancestors (fst (typed ''7'' (hd (nested_in (mounted ''{\"a\":{\"\":5}}'')))
                               [mounted ''{\"a\":{\"\":5}}''])))
      = [''{\"\":7}'', ''{\"a\":{\"\":5}}'']
   \<and> map textContent
        (e_host (fst (typed ''7'' (hd (nested_in (mounted ''{\"a\":{\"x\":5}}'')))
                        [mounted ''{\"a\":{\"x\":5}}'']))
         # e_ancestors (fst (typed ''7'' (hd (nested_in (mounted ''{\"a\":{\"x\":5}}'')))
                               [mounted ''{\"a\":{\"x\":5}}''])))
      = [''{\"x\":7}'', ''{\"a\":{\"x\":7}}'']
   \<and> input (e_host (edit_steps (demo_platform example_table)
        [InputText ''7'', KeyDown ''Enter'']
        (click (hd (prims_of (mounted ''{\"x\":5}''))) (mounted ''{\"x\":5}'') [])))
      = Some (JObj [(''x'', JNum 7)])
   \<and> textContent (e_host (edit_steps (demo_platform example_table)
        [InputText ''7'', KeyDown ''Enter'']
        (click (hd (prims_of (mounted ''{\"x\":5}''))) (mounted ''{\"x\":5}'') [])))
      = ''{\"x\":7}''"
  by code_simp

section \<open>The end of a drag\<close>

text \<open>
  C3 says that \<open>dragEnd\<close> recomputes the array from the rows, makes it the value of the
  owning element and reports the key and the array to the parent of that element.
  \<open>dragEnd\<close> tests the key for truthiness before it calls the parent. In
  \<open>{"":[1,2,3]}\<close> the nested element has the key \<open>""\<close> and renders the rows \<open>1\<close>, \<open>2\<close>,
  \<open>3\<close>: after the first row is dragged over the last one and dropped, the nested
  element has the text \<open>[2,3,1]\<close> and its parent still has the text \<open>{"":[1,2,3]}\<close>, in
  both copies of the component. With the key \<open>a\<close>, in \<open>{"a":[1,2,3]}\<close>, the same drag
  leaves the parent with the text \<open>{"a":[2,3,1]}\<close>, and the element mounted from
  \<open>[1,2,3]\<close> ends with the text \<open>[2,3,1]\<close>.
\<close>

theorem drop_under_empty_key_not_reported:
  "map (\<lambda>n. (attr_key n, textContent n, editable n)) (nested_in (mounted ''{\"\":[1,2,3]}''))
      = [(Some [], ''[1,2,3]'', True)]
   \<and> map d_text (rows_of (hd (nested_in (mounted ''{\"\":[1,2,3]}'')))) = [''1'', ''2'', ''3'']
   \<and> map d_text (filter d_row (kids (dragged_first_to_last
        (hd (nested_in (mounted ''{\"\":[1,2,3]}'')))))) = [''2'', ''3'', ''1'']
   \<and> map textContent (fst (snd (dragEnd (demo_platform example_table)
        (dragged_first_to_last (hd (nested_in (mounted ''{\"\":[1,2,3]}''))))
        (hd (nested_in (mounted ''{\"\":[1,2,3]}''))) [mounted ''{\"\":[1,2,3]}''])))
      = [''[2,3,1]'', ''{\"\":[1,2,3]}'']
   \<and> map textContent (fst (snd (dragEnd_part000 (demo_platform example_table)
        (dragged_first_to_last (hd (nested_in (mounted ''{\"\":[1,2,3]}''))))
        (hd (nested_in (mounted ''{\"\":[1,2,3]}''))) [mounted ''{\"\":[1,2,3]}''])))
      = [''[2,3,1]'', ''{\"\":[1,2,3]}'']
   \<and> snd (snd (dragEnd (demo_platform example_table)
        (dragged_first_to_last (hd (nested_in (mounted ''{\"\":[1,2,3]}''))))
        (hd (nested_in (mounted ''{\"\":[1,2,3]}''))) [mounted ''{\"\":[1,2,3]}''])) = None
   \<and> map textContent (fst (snd (dragEnd (demo_platform example_table)
        (dragged_first_to_last (hd (nested_in (mounted ''{\"a\":[1,2,3]}''))))
        (hd (nested_in (mounted ''{\"a\":[1,2,3]}''))) [mounted ''{\"a\":[1,2,3]}''])))
      = [''[2,3,1]'', ''{\"a\":[2,3,1]}'']
   \<and> map textContent (fst (snd (dragEnd_part000 (demo_platform example_table)
        (dragged_first_to_last (hd (nested_in (mounted ''{\"a\":[1,2,3]}''))))
        (hd (nested_in (mounted ''{\"a\":[1,2,3]}''))) [mounted ''{\"a\":[1,2,3]}''])))
      = [''[2,3,1]'', ''{\"a\":[2,3,1]}'']
   \<and> map textContent (fst (snd (dragEnd (demo_platform example_table)
        (dragged_first_to_last (mounted ''[1,2,3]'')) (mounted ''[1,2,3]'') [])))
      = [''[2,3,1]'']"
  by code_simp

end
